theory Spec2Isabelle
  imports Main
begin

section \<open>Values, errors and results\<close>

text \<open>
  A Python \<open>str\<close> is modelled as a \<open>string\<close> whose characters stand for the code points
  of the same number (code points below 256, which cover every literal of the source:
  \<open>CHR 0xF6\<close> is the o-umlaut of the header label, \<open>CHR 0x0A\<close> the line feed).
\<close>

record datetime =
  year :: nat
  month :: nat
  day :: nat

text \<open>The value of a worksheet cell: absent, text, a number, or a date object.\<close>

datatype cell = CNone | CStr string | CNum int | CDate datetime

text \<open>
  The exceptions of the program. Python has one class \<open>ValueError\<close>; its argument tells
  where it was raised: by \<open>validate\<close> from an assertion failure, by \<open>parse_bool\<close>, by
  \<open>strptime\<close>, by unpacking a tuple of the wrong length, or by \<open>locale.atof\<close>.
\<close>

datatype value_error = FromAssertion | CantParseBool string | TimeData | Unpack | NotAFloat

datatype error =
    AssertionError
  | ValueError value_error
  | TypeError
  | IndexError
  | LocaleError

section \<open>Character classes and regular expressions\<close>

definition code :: "char \<Rightarrow> nat" where
  "code c = of_char c"

text \<open>\<open>[0-9]\<close>, and \<open>\d\<close> on code points below 256.\<close>

definition is_digit :: "char \<Rightarrow> bool" where
  "is_digit c = (48 \<le> code c \<and> code c \<le> 57)"

text \<open>
  \<open>\w\<close> of a \<open>str\<close> pattern: the alphanumeric code points and the underscore. Below 256
  these are the ASCII letters and digits, the underscore, the feminine and masculine
  ordinal indicators, the micro sign, the superscript digits, the vulgar fractions and
  the accented Latin letters (all of 192..255 but the multiplication and division signs).
\<close>

definition is_word :: "char \<Rightarrow> bool" where
  "is_word c =
     (let n = code c in
        (48 \<le> n \<and> n \<le> 57) \<or> (65 \<le> n \<and> n \<le> 90) \<or> n = 95 \<or> (97 \<le> n \<and> n \<le> 122)
        \<or> n = 170 \<or> n = 178 \<or> n = 179 \<or> n = 181 \<or> n = 185 \<or> n = 186
        \<or> n = 188 \<or> n = 189 \<or> n = 190
        \<or> (192 \<le> n \<and> n \<le> 214) \<or> (216 \<le> n \<and> n \<le> 246) \<or> (248 \<le> n \<and> n \<le> 255))"

text \<open>
  \<open>\s\<close> of a \<open>str\<close> pattern: tab, line feed, vertical tab, form feed, carriage return,
  the four separators 28..31, the space, next-line (133) and the no-break space (160).
\<close>

definition is_space :: "char \<Rightarrow> bool" where
  "is_space c =
     (let n = code c in
        (9 \<le> n \<and> n \<le> 13) \<or> (28 \<le> n \<and> n \<le> 32) \<or> n = 133 \<or> n = 160)"

text \<open>
  A character class of a pattern: \<open>.\<close> (anything but the line feed), a literal,
  \<open>\w\<close>, \<open>\s\<close>, \<open>[0-9]\<close>, and the union of two classes (as in \<open>[0-9\s]\<close>).
\<close>

datatype cls = Dot | Lit char | Word | Space | Digit | Union cls cls

fun member_cls :: "cls \<Rightarrow> char \<Rightarrow> bool" where
  "member_cls Dot c = (c \<noteq> CHR 0x0A)"
| "member_cls (Lit a) c = (c = a)"
| "member_cls Word c = is_word c"
| "member_cls Space c = is_space c"
| "member_cls Digit c = is_digit c"
| "member_cls (Union a b) c = (member_cls a c \<or> member_cls b c)"

text \<open>
  The items of a pattern, in sequence: \<open>^\<close>, \<open>$\<close>, one character of a class, a class
  under the greedy \<open>*\<close> or \<open>+\<close>, and the parentheses of a capturing group.
\<close>

datatype item = Bol | Eol | One cls | Star cls | Plus cls | Open | Close

text \<open>
  The backtracking matcher of Python's \<open>re\<close>, on the patterns of this program (groups
  are neither nested nor repeated). \<open>rmatch items seen rest opens groups\<close> matches the
  items against \<open>rest\<close>, where \<open>seen\<close> is the text consumed so far, \<open>opens\<close> the start
  positions of the groups that are open and \<open>groups\<close> the texts of the groups that are
  closed. A greedy repetition first tries to take one more character and falls back to
  the rest of the pattern when that fails. \<open>$\<close> holds at the end of the text and before
  a line feed that ends the text.
\<close>

fun rmatch :: "item list \<Rightarrow> string \<Rightarrow> string \<Rightarrow> nat list \<Rightarrow> string list \<Rightarrow> string list option" where
  "rmatch [] seen rest opens groups = Some groups"
| "rmatch (Bol # r) seen rest opens groups =
     (if seen = [] then rmatch r seen rest opens groups else None)"
| "rmatch (Eol # r) seen rest opens groups =
     (if rest = [] \<or> rest = [CHR 0x0A] then rmatch r seen rest opens groups else None)"
| "rmatch (One c # r) seen [] opens groups = None"
| "rmatch (One c # r) seen (x # xs) opens groups =
     (if member_cls c x then rmatch r (seen @ [x]) xs opens groups else None)"
| "rmatch (Star c # r) seen [] opens groups = rmatch r seen [] opens groups"
| "rmatch (Star c # r) seen (x # xs) opens groups =
     (if member_cls c x
      then (case rmatch (Star c # r) (seen @ [x]) xs opens groups of
              Some g \<Rightarrow> Some g
            | None \<Rightarrow> rmatch r seen (x # xs) opens groups)
      else rmatch r seen (x # xs) opens groups)"
| "rmatch (Plus c # r) seen [] opens groups = None"
| "rmatch (Plus c # r) seen (x # xs) opens groups =
     (if member_cls c x then rmatch (Star c # r) (seen @ [x]) xs opens groups else None)"
| "rmatch (Open # r) seen rest opens groups =
     rmatch r seen rest (length seen # opens) groups"
| "rmatch (Close # r) seen rest [] groups = None"
| "rmatch (Close # r) seen rest (k # opens) groups =
     rmatch r seen rest opens (groups @ [drop k seen])"

text \<open>\<open>re.match(pattern, string)\<close>: the groups of the match at the start of the string.\<close>

definition re_match :: "item list \<Rightarrow> string \<Rightarrow> string list option" where
  "re_match items s = rmatch items [] s [] []"

section \<open>Dates\<close>

definition digit_val :: "char \<Rightarrow> nat" where
  "digit_val c = code c - 48"

definition is_leap :: "nat \<Rightarrow> bool" where
  "is_leap y = (y mod 4 = 0 \<and> (y mod 400 = 0 \<or> y mod 100 \<noteq> 0))"

definition days_in_month :: "nat \<Rightarrow> nat \<Rightarrow> nat" where
  "days_in_month y m =
     (if m = 2 then (if is_leap y then 29 else 28)
      else if m = 4 \<or> m = 6 \<or> m = 9 \<or> m = 11 then 30 else 31)"

text \<open>The constructor of a date: year 1..9999, month 1..12, a day of that month.\<close>

definition mk_datetime :: "nat \<Rightarrow> nat \<Rightarrow> nat \<Rightarrow> error + datetime" where
  "mk_datetime y m d =
     (if 1 \<le> y \<and> y \<le> 9999 \<and> 1 \<le> m \<and> m \<le> 12 \<and> 1 \<le> d \<and> d \<le> days_in_month y m
      then Inr \<lparr>year = y, month = m, day = d\<rparr>
      else Inl (ValueError TimeData))"

text \<open>
  The directives of \<open>strptime\<close>, each the regular expression the library compiles it to,
  returning the number read and the text that follows:
  \<open>%Y\<close> is \<open>\d\d\d\d\<close>, \<open>%y\<close> is \<open>\d\d\<close>, \<open>%m\<close> is \<open>1[0-2]|0[1-9]|[1-9]\<close> and
  \<open>%d\<close> is \<open>3[0-1]|[1-2]\d|0[1-9]|[1-9]| [1-9]\<close>, the alternatives tried in this order.
\<close>

fun dir_Y :: "string \<Rightarrow> (nat \<times> string) option" where
  "dir_Y (a # b # c # d # s) =
     (if is_digit a \<and> is_digit b \<and> is_digit c \<and> is_digit d
      then Some (1000 * digit_val a + 100 * digit_val b + 10 * digit_val c + digit_val d, s)
      else None)"
| "dir_Y s = None"

fun dir_y :: "string \<Rightarrow> (nat \<times> string) option" where
  "dir_y (a # b # s) =
     (if is_digit a \<and> is_digit b then Some (10 * digit_val a + digit_val b, s) else None)"
| "dir_y s = None"

definition is_digit19 :: "char \<Rightarrow> bool" where
  "is_digit19 c = (49 \<le> code c \<and> code c \<le> 57)"

fun dir_m :: "string \<Rightarrow> (nat \<times> string) option" where
  "dir_m (a # b # s) =
     (if a = CHR ''1'' \<and> (b = CHR ''0'' \<or> b = CHR ''1'' \<or> b = CHR ''2'')
        then Some (10 + digit_val b, s)
      else if a = CHR ''0'' \<and> is_digit19 b then Some (digit_val b, s)
      else if is_digit19 a then Some (digit_val a, b # s)
      else None)"
| "dir_m [a] = (if is_digit19 a then Some (digit_val a, []) else None)"
| "dir_m [] = None"

fun dir_d :: "string \<Rightarrow> (nat \<times> string) option" where
  "dir_d (a # b # s) =
     (if a = CHR ''3'' \<and> (b = CHR ''0'' \<or> b = CHR ''1'') then Some (30 + digit_val b, s)
      else if (a = CHR ''1'' \<or> a = CHR ''2'') \<and> is_digit b
        then Some (10 * digit_val a + digit_val b, s)
      else if a = CHR ''0'' \<and> is_digit19 b then Some (digit_val b, s)
      else if is_digit19 a then Some (digit_val a, b # s)
      else if a = CHR '' '' \<and> is_digit19 b then Some (digit_val b, s)
      else None)"
| "dir_d [a] = (if is_digit19 a then Some (digit_val a, []) else None)"
| "dir_d [] = None"

fun dash :: "string \<Rightarrow> string option" where
  "dash (c # s) = (if c = CHR ''-'' then Some s else None)"
| "dash [] = None"

text \<open>
  \<open>strptime\<close> with a format \<open>year-%m-%d\<close>, where \<open>dir_year\<close> reads the year: the text
  must match the format from its start, nothing may remain after the match, and the
  numbers must make a date. Each failure is the library's \<open>ValueError\<close>.
\<close>

definition strptime_with :: "(string \<Rightarrow> (nat \<times> string) option) \<Rightarrow> string \<Rightarrow> error + datetime" where
  "strptime_with dir_year s =
     (case dir_year s of None \<Rightarrow> Inl (ValueError TimeData) | Some (y, s1) \<Rightarrow>
      (case dash s1 of None \<Rightarrow> Inl (ValueError TimeData) | Some s2 \<Rightarrow>
      (case dir_m s2 of None \<Rightarrow> Inl (ValueError TimeData) | Some (m, s3) \<Rightarrow>
      (case dash s3 of None \<Rightarrow> Inl (ValueError TimeData) | Some s4 \<Rightarrow>
      (case dir_d s4 of None \<Rightarrow> Inl (ValueError TimeData) | Some (d, s5) \<Rightarrow>
        (if s5 \<noteq> [] then Inl (ValueError TimeData) else mk_datetime y m d))))))"

text \<open>\<open>datetime.strptime(s, '%Y-%m-%d')\<close>.\<close>

definition strptime_Ymd :: "string \<Rightarrow> error + datetime" where
  "strptime_Ymd s = strptime_with dir_Y s"

text \<open>
  \<open>datetime.strptime(s, '%y-%m-%d')\<close>: a two-digit year up to 68 is in the 2000s, a
  later one in the 1900s.
\<close>

definition century :: "nat \<Rightarrow> nat" where
  "century y = (if y \<le> 68 then y + 2000 else y + 1900)"

definition dir_y_century :: "string \<Rightarrow> (nat \<times> string) option" where
  "dir_y_century s = (case dir_y s of None \<Rightarrow> None | Some (y, r) \<Rightarrow> Some (century y, r))"

definition strptime_ymd :: "string \<Rightarrow> error + datetime" where
  "strptime_ymd s = strptime_with dir_y_century s"

text \<open>
  \<open>parse_datetime\<close>, inherited from the base class of the parser: \<open>strptime\<close> with the
  class's \<open>date_format\<close>, which is \<open>'%Y-%m-%d'\<close>. A value that is not a \<open>str\<close> is a
  \<open>TypeError\<close>.
\<close>

definition parse_datetime :: "cell \<Rightarrow> error + datetime" where
  "parse_datetime v = (case v of CStr s \<Rightarrow> strptime_Ymd s | _ \<Rightarrow> Inl TypeError)"

section \<open>The locale-scoped numeric parser\<close>







section \<open>The statement parser\<close>

text \<open>
  A worksheet is the list of its rows, as \<open>iter_rows\<close> yields them, each row the list of
  the values of its cells.
\<close>

type_synonym worksheet = "cell list list"

record statement =
  account_id :: string
  bank_id :: string
  currency :: string

text \<open>
  A statement line. Its \<open>id\<close> is the digest that \<open>generate_transaction_id\<close> of the
  ofxstatement library computes of the date, the memo and the amount of the line; the
  model keeps the three values the digest is taken of.
\<close>

record statement_line =
  line_id :: "datetime \<times> string \<times> cell"
  date :: datetime
  date_user :: "datetime option"
  refnum :: cell
  memo :: string
  amount :: cell

definition bank_id_const :: string where
  "bank_id_const = ''SEB''"

definition currency_id :: string where
  "currency_id = ''SEK''"

text \<open>The pattern \<open>^\w+\s\(([0-9\s]+)\)$\<close> of the account row.\<close>

definition account_re :: "item list" where
  "account_re =
     [Bol, Plus Word, One Space, One (Lit (CHR ''('')),
      Open, Plus (Union Digit Space), Close, One (Lit (CHR '')'')), Eol]"

text \<open>The pattern \<open>(.*)/([0-9]{2}-[0-9]{2}-[0-9]{2})$\<close> of a card memo.\<close>

definition memo_re :: "item list" where
  "memo_re =
     [Open, Star Dot, Close, One (Lit (CHR ''/'')),
      Open, One Digit, One Digit, One (Lit (CHR ''-'')), One Digit, One Digit,
      One (Lit (CHR ''-'')), One Digit, One Digit, Close, Eol]"

definition statement_header :: "cell list" where
  "statement_header =
     [CStr (''Bokf'' @ [CHR 0xF6] @ ''ringsdatum''), CStr ''Valutadatum'',
      CStr ''Verifikationsnummer'', CStr ''Text'', CStr ''Belopp'', CStr ''Saldo'']"

text \<open>
  \<open>_validate\<close>: the chain of assertions on the first eight rows. The reads \<open>rows[4]\<close>,
  \<open>rows[5]\<close>, \<open>rows[7]\<close> and \<open>summary_account_row[0]\<close> come after the assertions on the
  lengths and are in range. \<open>re.match\<close> on a value that is not a \<open>str\<close> raises
  \<open>TypeError\<close>.
\<close>

definition validate' :: "worksheet \<Rightarrow> error + unit" where
  "validate' sheet =
     (let rows = take 8 sheet in
      if length rows \<noteq> 8 then Inl AssertionError
      else if \<not> list_all (\<lambda>row. length row = 6) rows then Inl AssertionError
      else
        (let summary_account_row = rows ! 4;
             account_id = summary_account_row ! 0
         in case account_id of
              CStr s \<Rightarrow>
                (if re_match account_re s = None then Inl AssertionError
                 else if [CNone, CNone] \<noteq> drop (length summary_account_row - 2) summary_account_row
                   then Inl AssertionError
                 else if [CNone, CNone, CNone, CNone, CNone, CNone] \<noteq> rows ! 5
                   then Inl AssertionError
                 else if statement_header \<noteq> rows ! 7 then Inl AssertionError
                 else Inr ())
            | _ \<Rightarrow> Inl TypeError))"

text \<open>\<open>validate\<close>: an \<open>AssertionError\<close> becomes a \<open>ValueError\<close>; any other error passes.\<close>

definition validate :: "worksheet \<Rightarrow> error + unit" where
  "validate sheet =
     (case validate' sheet of
        Inl AssertionError \<Rightarrow> Inl (ValueError FromAssertion)
      | Inl e \<Rightarrow> Inl e
      | Inr u \<Rightarrow> Inr u)"

text \<open>Python's \<open>xs[i]\<close> for \<open>i \<ge> 0\<close>: \<open>IndexError\<close> out of range.\<close>

definition index :: "'a list \<Rightarrow> nat \<Rightarrow> error + 'a" where
  "index xs i = (if i < length xs then Inr (xs ! i) else Inl IndexError)"

text \<open>
  \<open>parse_statement\<close>: the account id is group 1 of the match on the first cell of row
  4. Indexing a failed match (\<open>None\<close>) or matching a value that is not a \<open>str\<close> is a
  \<open>TypeError\<close>.
\<close>

definition parse_statement :: "worksheet \<Rightarrow> error + statement" where
  "parse_statement sheet =
     (let rows = take 8 sheet in
      if length rows \<noteq> 8 then Inl AssertionError
      else
        (let account_row = rows ! 4 in
         case index account_row 0 of
           Inl e \<Rightarrow> Inl e
         | Inr (CStr s) \<Rightarrow>
             (case re_match account_re s of
                None \<Rightarrow> Inl TypeError
              | Some gs \<Rightarrow>
                  (case index gs 0 of
                     Inl e \<Rightarrow> Inl e
                   | Inr g \<Rightarrow> Inr \<lparr>account_id = g, bank_id = bank_id_const, currency = currency_id\<rparr>))
         | Inr _ \<Rightarrow> Inl TypeError))"


text \<open>
  \<open>parse_record\<close>, statement by statement. The reads of \<open>row[0]\<close> to \<open>row[4]\<close> raise
  \<open>IndexError\<close> on a short row, \<open>re.match\<close> raises \<open>TypeError\<close> on a memo that is not a
  \<open>str\<close>, and the two-name unpacking of the groups raises \<open>ValueError\<close> unless there are
  two.
\<close>

definition parse_record :: "bool \<Rightarrow> cell list \<Rightarrow> error + statement_line" where
  "parse_record brief row0 =
     (let row = take 5 row0 in
      case index row 0 of Inl e \<Rightarrow> Inl e | Inr c0 \<Rightarrow>
      (case parse_datetime c0 of Inl e \<Rightarrow> Inl e | Inr d \<Rightarrow>
      (case index row 1 of Inl e \<Rightarrow> Inl e | Inr c1 \<Rightarrow>
      (case parse_datetime c1 of Inl e \<Rightarrow> Inl e | Inr _ \<Rightarrow>
      (case index row 2 of Inl e \<Rightarrow> Inl e | Inr c2 \<Rightarrow>
      (case index row 3 of Inl e \<Rightarrow> Inl e | Inr c3 \<Rightarrow>
      (case index row 4 of Inl e \<Rightarrow> Inl e | Inr c4 \<Rightarrow>
      (case c3 of
         CStr m \<Rightarrow>
           (case re_match memo_re m of
              None \<Rightarrow>
                Inr \<lparr>line_id = (d, m, c4), date = d, date_user = None,
                     refnum = c2, memo = m, amount = c4\<rparr>
            | Some [card_memo, card_date] \<Rightarrow>
                (let m' = (if brief then card_memo else m) in
                 case strptime_ymd card_date of
                   Inl e \<Rightarrow> Inl e
                 | Inr du \<Rightarrow>
                     Inr \<lparr>line_id = (d, m', c4), date = d, date_user = Some du,
                          refnum = c2, memo = m', amount = c4\<rparr>)
            | Some _ \<Rightarrow> Inl (ValueError Unpack))
       | _ \<Rightarrow> Inl TypeError))))))))"



text \<open>
  The value of the \<open>locale\<close> argument of the parser: a string, or a boolean when it went
  through \<open>parse_bool\<close>.
\<close>

datatype pyval = PStr string | PBool bool

record parser =
  self_locale :: "pyval option"
  self_brief :: bool
  self_workbook :: worksheet
  self_statement :: statement

text \<open>
  The constructor \<open>SebStatementParser(fin, locale, brief)\<close>, on the active sheet of the
  workbook that \<open>load_workbook\<close> read from \<open>fin\<close>: validate, then read the statement.
\<close>

definition SebStatementParser :: "worksheet \<Rightarrow> pyval option \<Rightarrow> bool \<Rightarrow> error + parser" where
  "SebStatementParser fin loc br =
     (case validate fin of
        Inl e \<Rightarrow> Inl e
      | Inr _ \<Rightarrow>
          (case parse_statement fin of
             Inl e \<Rightarrow> Inl e
           | Inr st \<Rightarrow> Inr \<lparr>self_locale = loc, self_brief = br, self_workbook = fin, self_statement = st\<rparr>))"

section \<open>Plugin settings\<close>

definition parse_bool :: "string \<Rightarrow> error + bool" where
  "parse_bool v =
     (if v \<in> set [''True'', ''true'', ''1''] then Inr True
      else if v \<in> set [''False'', ''false'', ''0''] then Inr False
      else Inl (ValueError (CantParseBool v)))"

text \<open>
  \<open>SebPlugin.get_parser\<close>. The settings are a dictionary of strings, or absent; an
  absent or empty dictionary is false in \<open>if self.settings\<close>. The keyword \<open>brief\<close> is
  passed only when the settings have it, and is \<open>False\<close> by the constructor's default
  otherwise.
\<close>

definition get_parser :: "(string \<times> string) list option \<Rightarrow> worksheet \<Rightarrow> error + parser" where
  "get_parser settings fin =
     (let kw_locale = PStr ''sv_SE''; kw_brief = False in
      case settings of
        None \<Rightarrow> SebStatementParser fin (Some kw_locale) kw_brief
      | Some [] \<Rightarrow> SebStatementParser fin (Some kw_locale) kw_brief
      | Some st \<Rightarrow>
          (case (case map_of st ''locale'' of
                   None \<Rightarrow> Inr kw_locale
                 | Some v \<Rightarrow> (case parse_bool v of Inl e \<Rightarrow> Inl e | Inr b \<Rightarrow> Inr (PBool b))) of
             Inl e \<Rightarrow> Inl e
           | Inr kw_locale' \<Rightarrow>
               (case (case map_of st ''brief'' of
                        None \<Rightarrow> Inr kw_brief
                      | Some v \<Rightarrow> parse_bool v) of
                  Inl e \<Rightarrow> Inl e
                | Inr kw_brief' \<Rightarrow> SebStatementParser fin (Some kw_locale') kw_brief')))"

section \<open>The shape of a card memo\<close>

text \<open>
  The text \<open>YY-MM-DD\<close> that the card-memo pattern captures: two digits, a dash, two
  digits, a dash, two digits; and the part of the pattern after its first group.
\<close>

fun date_shape :: "string \<Rightarrow> bool" where
  "date_shape [a, b, p, c, d, q, e, f] =
     (is_digit a \<and> is_digit b \<and> p = CHR ''-'' \<and> is_digit c \<and> is_digit d \<and> q = CHR ''-''
      \<and> is_digit e \<and> is_digit f)"
| "date_shape s = False"

definition memo_tail :: "item list" where
  "memo_tail = [One (Lit (CHR ''/'')),
      Open, One Digit, One Digit, One (Lit (CHR ''-'')), One Digit, One Digit,
      One (Lit (CHR ''-'')), One Digit, One Digit, Close, Eol]"

section \<open>Example worksheets\<close>

definition blank_row :: "cell list" where
  "blank_row = [CNone, CNone, CNone, CNone, CNone, CNone]"

text \<open>Eight header rows of the fixed layout, with the given first cell in the account row.\<close>

definition preamble :: "cell \<Rightarrow> worksheet" where
  "preamble account_cell =
     [blank_row, blank_row, blank_row, blank_row,
      [account_cell, CNone, CNone, CNone, CNone, CNone],
      blank_row, blank_row, statement_header]"

definition privatkonto :: worksheet where
  "privatkonto = preamble (CStr ''Privatkonto (1234 567 890)'')"

text \<open>Eight rows of six cells, each row starting with a number.\<close>

definition number_sheet :: worksheet where
  "number_sheet = replicate 8 [CNum 1, CNone, CNone, CNone, CNone, CNone]"

section \<open>Example rows\<close>

text \<open>A data row with the given memo.\<close>

definition card_row :: "string \<Rightarrow> cell list" where
  "card_row m =
     [CStr ''2015-01-02'', CStr ''2015-01-03'', CStr ''5484381'', CStr m, CNum (-120), CNum 4000]"

definition bad_value_date_row :: "cell list" where
  "bad_value_date_row = (card_row ''ICA SUPERMARKET'')[1 := CStr ''2015-13-03'']"

definition wirstroms :: string where
  "wirstroms = ''WIRSTR'' @ [CHR 0xD6] @ ''MS PU''"

text \<open>A memo with two embedded dates on two lines.\<close>

definition two_lines :: string where
  "two_lines = ''A/14-01-01'' @ [CHR 0x0A] @ ''B/14-12-31''"






section \<open>The matcher on the two patterns\<close>

text \<open>
  What a successful match of a repetition, of a single character and of \<open>$\<close> says
  about the text, and from these the texts that the two patterns of the program match.
\<close>


lemma rmatch_Star_Some:
  "rmatch (Star c # r) seen rest opens groups = Some res \<Longrightarrow>
   \<exists>k\<le>length rest. list_all (member_cls c) (take k rest)
      \<and> rmatch r (seen @ take k rest) (drop k rest) opens groups = Some res"
proof (induction rest arbitrary: seen)
  case Nil
  then show ?case by simp
next
  case (Cons x xs)
  show ?case
  proof (cases "member_cls c x \<and> rmatch (Star c # r) (seen @ [x]) xs opens groups \<noteq> None")
    case True
    then obtain g where g: "rmatch (Star c # r) (seen @ [x]) xs opens groups = Some g" by auto
    with True Cons.prems have "g = res" by simp
    with g Cons.IH [of "seen @ [x]"] obtain k where
      k: "k \<le> length xs" "list_all (member_cls c) (take k xs)"
         "rmatch r ((seen @ [x]) @ take k xs) (drop k xs) opens groups = Some res" by blast
    show ?thesis
      by (rule exI [of _ "Suc k"]) (use k True in simp)
  next
    case False
    with Cons.prems have "rmatch r seen (x # xs) opens groups = Some res"
      by (auto split: if_splits option.splits)
    then show ?thesis
      by (intro exI [of _ 0]) simp
  qed
qed

lemma rmatch_Plus_Some:
  assumes "rmatch (Plus c # r) seen rest opens groups = Some res"
  shows "\<exists>k. 0 < k \<and> k \<le> length rest \<and> list_all (member_cls c) (take k rest)
      \<and> rmatch r (seen @ take k rest) (drop k rest) opens groups = Some res"
proof (cases rest)
  case Nil
  with assms show ?thesis by simp
next
  case (Cons x xs)
  with assms have x: "member_cls c x"
    and s: "rmatch (Star c # r) (seen @ [x]) xs opens groups = Some res"
    by (auto split: if_splits)
  from rmatch_Star_Some [OF s] obtain k where
    k: "k \<le> length xs" "list_all (member_cls c) (take k xs)"
       "rmatch r ((seen @ [x]) @ take k xs) (drop k xs) opens groups = Some res" by blast
  show ?thesis
    by (rule exI [of _ "Suc k"]) (use k x Cons in simp)
qed

lemma rmatch_One_Some:
  "rmatch (One c # r) seen rest opens groups = Some res \<Longrightarrow>
   \<exists>x xs. rest = x # xs \<and> member_cls c x \<and> rmatch r (seen @ [x]) xs opens groups = Some res"
  by (cases rest) (auto split: if_splits)

lemma rmatch_Eol_Some:
  "rmatch (Eol # r) seen rest opens groups = Some res \<Longrightarrow>
   (rest = [] \<or> rest = [CHR 0x0A]) \<and> rmatch r seen rest opens groups = Some res"
  by (auto split: if_splits)


lemma account_re_sound:
  assumes "re_match account_re s = Some gs"
  shows "\<exists>w sp g t. s = w @ sp # CHR ''('' # g @ CHR '')'' # t \<and> gs = [g]
      \<and> w \<noteq> [] \<and> list_all is_word w \<and> is_space sp
      \<and> g \<noteq> [] \<and> list_all (\<lambda>c. is_digit c \<or> is_space c) g
      \<and> (t = [] \<or> t = [CHR 0x0A])"
proof -
  let ?r1 = "[One Space, One (Lit (CHR ''('')), Open, Plus (Union Digit Space), Close,
              One (Lit (CHR '')'')), Eol]"
  from assms have "rmatch (Plus Word # ?r1) [] s [] [] = Some gs"
    by (simp add: re_match_def account_re_def)
  from rmatch_Plus_Some [OF this] obtain k where
    k: "0 < k" "k \<le> length s" "list_all (member_cls Word) (take k s)"
    and m1: "rmatch ?r1 ([] @ take k s) (drop k s) [] [] = Some gs" by blast
  define w where "w = take k s"
  from rmatch_One_Some [OF m1] obtain sp s2 where
    sp: "drop k s = sp # s2" "member_cls Space sp"
    and m2: "rmatch (tl ?r1) (([] @ take k s) @ [sp]) s2 [] [] = Some gs" by auto
  from rmatch_One_Some [OF m2 [simplified]] obtain s3 where
    s3: "s2 = CHR ''('' # s3"
    and m3: "rmatch [Plus (Union Digit Space), Close, One (Lit (CHR '')'')), Eol]
               (w @ [sp, CHR ''('']) s3 [Suc (Suc (length w))] [] = Some gs"
    by (auto simp: w_def)
  from rmatch_Plus_Some [OF m3] obtain j where
    j: "0 < j" "j \<le> length s3" "list_all (member_cls (Union Digit Space)) (take j s3)"
    and m4: "rmatch [Close, One (Lit (CHR '')'')), Eol]
               ((w @ [sp, CHR ''('']) @ take j s3) (drop j s3) [Suc (Suc (length w))] [] = Some gs"
    by blast
  define g where "g = take j s3"
  from m4 have m5: "rmatch [One (Lit (CHR '')'')), Eol]
               ((w @ [sp, CHR ''('']) @ g) (drop j s3) [] [g] = Some gs"
    by (simp add: g_def)
  from rmatch_One_Some [OF m5] obtain t where
    t: "drop j s3 = CHR '')'' # t"
    and m6: "rmatch [Eol] (((w @ [sp, CHR ''('']) @ g) @ [CHR '')'']) t [] [g] = Some gs"
    by auto
  from rmatch_Eol_Some [OF m6] have tt: "t = [] \<or> t = [CHR 0x0A]" and gs: "gs = [g]"
    by auto
  have "s = take k s @ drop k s" by simp
  also have "\<dots> = w @ sp # CHR ''('' # s3" by (simp add: w_def sp s3)
  also have "s3 = take j s3 @ drop j s3" by simp
  finally have "s = w @ sp # CHR ''('' # g @ CHR '')'' # t" by (simp add: g_def t)
  moreover have "w \<noteq> []" using k by (auto simp: w_def)
  moreover have "g \<noteq> []" using j by (auto simp: g_def)
  moreover have "list_all is_word w" using k(3) by (simp add: w_def list_all_iff)
  moreover have "list_all (\<lambda>c. is_digit c \<or> is_space c) g" using j(3) by (simp add: g_def list_all_iff)
  moreover have "is_space sp" using sp by simp
  ultimately show ?thesis using tt gs by blast
qed


lemma memo_re_tail: "memo_re = Open # Star Dot # Close # memo_tail"
  by (simp add: memo_re_def memo_tail_def)

lemma is_digit_not_slash [simp]: "is_digit c \<Longrightarrow> c \<noteq> CHR ''/''"
  by (auto simp: is_digit_def code_def)

lemma is_digit_not_lf [simp]: "is_digit c \<Longrightarrow> c \<noteq> CHR 0x0A"
  by (auto simp: is_digit_def code_def)

lemma date_shapeE:
  assumes "date_shape d"
  obtains a b c e f g where "d = [a, b, CHR ''-'', c, e, CHR ''-'', f, g]"
    "is_digit a" "is_digit b" "is_digit c" "is_digit e" "is_digit f" "is_digit g"
  using assms by (auto elim!: date_shape.elims(2))

lemma memo_tail_sound:
  assumes "rmatch memo_tail seen rest [] [g1] = Some gs"
  shows "\<exists>d t. rest = CHR ''/'' # d @ t \<and> date_shape d \<and> (t = [] \<or> t = [CHR 0x0A]) \<and> gs = [g1, d]"
proof -
  from assms obtain a b p c d q e f t where
    "rest = CHR ''/'' # [a, b, p, c, d, q, e, f] @ t"
    "date_shape [a, b, p, c, d, q, e, f]" "t = [] \<or> t = [CHR 0x0A]" "gs = [g1, [a, b, p, c, d, q, e, f]]"
    unfolding memo_tail_def
    by (auto dest!: rmatch_One_Some split: if_splits)
  then show ?thesis by blast
qed

lemma memo_tail_complete:
  assumes "date_shape d" "t = [] \<or> t = [CHR 0x0A]"
  shows "rmatch memo_tail seen (CHR ''/'' # d @ t) [] [g1] = Some [g1, d]"
  using assms by (auto elim!: date_shapeE simp: memo_tail_def)

lemma star_none_on_date:
  assumes "date_shape d" "t = [] \<or> t = [CHR 0x0A]"
  shows "rmatch (Star Dot # Close # memo_tail) seen (d @ t) opens groups = None"
proof -
  have close: "rmatch (Close # memo_tail) sn rs opens groups = None"
    if "rs = [] \<or> hd rs \<noteq> CHR ''/''" for sn rs
    using that by (cases opens; cases rs) (auto simp: memo_tail_def)
  from assms(1) obtain a b c e f g where d: "d = [a, b, CHR ''-'', c, e, CHR ''-'', f, g]"
    and dg: "is_digit a" "is_digit b" "is_digit c" "is_digit e" "is_digit f" "is_digit g"
    by (rule date_shapeE)
  from assms(2) dg show ?thesis
    unfolding d by (auto simp: close)
qed

lemma star_dot_complete:
  assumes "date_shape d" "t = [] \<or> t = [CHR 0x0A]" "list_all (\<lambda>c. c \<noteq> CHR 0x0A) pre"
    "k \<le> length seen"
  shows "rmatch (Star Dot # Close # memo_tail) seen (pre @ CHR ''/'' # d @ t) [k] []
         = Some [drop k seen @ pre, d]"
  using assms(3,4)
proof (induction pre arbitrary: seen)
  case Nil
  show ?case
    using star_none_on_date [OF assms(1,2)] memo_tail_complete [OF assms(1,2)]
    by simp
next
  case (Cons x xs)
  then show ?case by simp
qed

lemma memo_re_complete:
  assumes "date_shape d" "t = [] \<or> t = [CHR 0x0A]" "list_all (\<lambda>c. c \<noteq> CHR 0x0A) pre"
  shows "re_match memo_re (pre @ CHR ''/'' # d @ t) = Some [pre, d]"
  using star_dot_complete [OF assms, of 0 "[]"]
  by (simp add: re_match_def memo_re_tail)

lemma memo_re_sound:
  assumes "re_match memo_re m = Some gs"
  shows "\<exists>pre d t. m = pre @ CHR ''/'' # d @ t \<and> gs = [pre, d] \<and> date_shape d
      \<and> (t = [] \<or> t = [CHR 0x0A]) \<and> list_all (\<lambda>c. c \<noteq> CHR 0x0A) pre"
proof -
  from assms have "rmatch (Star Dot # Close # memo_tail) [] m [0] [] = Some gs"
    by (simp add: re_match_def memo_re_tail)
  from rmatch_Star_Some [OF this] obtain k where
    k: "k \<le> length m" "list_all (member_cls Dot) (take k m)"
    and m1: "rmatch (Close # memo_tail) ([] @ take k m) (drop k m) [0] [] = Some gs" by blast
  from m1 have "rmatch memo_tail (take k m) (drop k m) [] [take k m] = Some gs" by simp
  from memo_tail_sound [OF this] obtain d t where
    dt: "drop k m = CHR ''/'' # d @ t" "date_shape d" "t = [] \<or> t = [CHR 0x0A]" "gs = [take k m, d]"
    by blast
  have "m = take k m @ drop k m" by simp
  with dt have "m = take k m @ CHR ''/'' # d @ t" by simp
  moreover have "list_all (\<lambda>c. c \<noteq> CHR 0x0A) (take k m)" using k(2) by (simp add: list_all_iff)
  ultimately show ?thesis using dt by blast
qed

section \<open>Properties of the settings parser\<close>

text \<open>
  Claim C6. \<open>parse_bool\<close> returns true exactly on the tokens True, true and 1, false
  exactly on the tokens False, false and 0, and raises the configuration error (a
  \<open>ValueError\<close> naming the value) on every other value.
\<close>

theorem parse_bool_tokens:
  "(parse_bool v = Inr True) = (v = ''True'' \<or> v = ''true'' \<or> v = ''1'')
   \<and> (parse_bool v = Inr False) = (v = ''False'' \<or> v = ''false'' \<or> v = ''0'')
   \<and> (parse_bool v = Inl (ValueError (CantParseBool v)))
       = (v \<noteq> ''True'' \<and> v \<noteq> ''true'' \<and> v \<noteq> ''1''
          \<and> v \<noteq> ''False'' \<and> v \<noteq> ''false'' \<and> v \<noteq> ''0'')
   \<and> (\<exists>r. parse_bool v = r \<and> (r = Inr True \<or> r = Inr False \<or> r = Inl (ValueError (CantParseBool v))))"
  by (simp add: parse_bool_def)

section \<open>Properties of the layout validator\<close>

text \<open>
  Once the first eight rows are there and have six cells each, \<open>_validate\<close> is the
  chain of checks on rows 4, 5 and 7.
\<close>

lemma validate'_rows:
  assumes "8 \<le> length sheet" "list_all (\<lambda>row. length row = 6) (take 8 sheet)"
  shows "validate' sheet =
     (case sheet ! 4 ! 0 of
        CStr s \<Rightarrow>
          (if re_match account_re s = None then Inl AssertionError
           else if [CNone, CNone] \<noteq> drop (length (sheet ! 4) - 2) (sheet ! 4) then Inl AssertionError
           else if [CNone, CNone, CNone, CNone, CNone, CNone] \<noteq> sheet ! 5 then Inl AssertionError
           else if statement_header \<noteq> sheet ! 7 then Inl AssertionError
           else Inr ())
      | _ \<Rightarrow> Inl TypeError)"
proof -
  have len: "length (take 8 sheet) = 8"
    using assms(1) by simp
  have r: "take 8 sheet ! 4 = sheet ! 4" "take 8 sheet ! 5 = sheet ! 5" "take 8 sheet ! 7 = sheet ! 7"
    by simp_all
  show ?thesis
    unfolding validate'_def Let_def r
    by (simp only: len assms(2) simp_thms if_False)
qed

text \<open>What an accepted worksheet looks like.\<close>

lemma validate_accepts:
  assumes "validate sheet = Inr ()"
  shows "8 \<le> length sheet" "list_all (\<lambda>row. length row = 6) (take 8 sheet)"
    "\<exists>s. sheet ! 4 ! 0 = CStr s \<and> re_match account_re s \<noteq> None"
    "drop 4 (sheet ! 4) = [CNone, CNone]"
    "sheet ! 5 = [CNone, CNone, CNone, CNone, CNone, CNone]"
    "sheet ! 7 = statement_header"
proof -
  from assms have v: "validate' sheet = Inr ()"
    by (auto simp: validate_def split: sum.splits error.splits)
  show len: "8 \<le> length sheet"
  proof (rule ccontr)
    assume "\<not> 8 \<le> length sheet"
    then have "validate' sheet = Inl AssertionError"
      by (simp add: validate'_def)
    with v show False by simp
  qed
  show all: "list_all (\<lambda>row. length row = 6) (take 8 sheet)"
  proof (rule ccontr)
    assume "\<not> list_all (\<lambda>row. length row = 6) (take 8 sheet)"
    then have "validate' sheet = Inl AssertionError"
      using len by (simp add: validate'_def)
    with v show False by simp
  qed
  have six: "length (sheet ! 4) = 6"
    using len all by (simp add: list_all_length)
  note u = v [unfolded validate'_rows [OF len all]]
  from u show "\<exists>s. sheet ! 4 ! 0 = CStr s \<and> re_match account_re s \<noteq> None"
    by (auto split: cell.splits if_splits)
  from u six show "drop 4 (sheet ! 4) = [CNone, CNone]"
    by (auto split: cell.splits if_splits)
  from u show "sheet ! 5 = [CNone, CNone, CNone, CNone, CNone, CNone]"
    by (auto split: cell.splits if_splits)
  from u show "sheet ! 7 = statement_header"
    by (auto split: cell.splits if_splits)
qed

text \<open>
  Where the validator raises the converted error: on a worksheet that is too short, on
  one with a row of another width among the first eight, and, when the account cell is a
  text, on a row 5 that is not empty or a row 7 that is not the header row. The
  constructor then builds no statement.
\<close>

lemma validate_structural_error:
  assumes "length sheet < 8
     \<or> \<not> list_all (\<lambda>row. length row = 6) (take 8 sheet)
     \<or> (\<exists>s. sheet ! 4 ! 0 = CStr s) \<and> (sheet ! 5 \<noteq> blank_row \<or> sheet ! 7 \<noteq> statement_header)"
  shows "validate sheet = Inl (ValueError FromAssertion)"
    and "SebStatementParser sheet loc br = Inl (ValueError FromAssertion)"
proof -
  have a: "validate' sheet = Inl AssertionError"
  proof (cases "8 \<le> length sheet \<and> list_all (\<lambda>row. length row = 6) (take 8 sheet)")
    case True
    with assms obtain s where "sheet ! 4 ! 0 = CStr s"
      "sheet ! 5 \<noteq> blank_row \<or> sheet ! 7 \<noteq> statement_header"
      by auto
    with True show ?thesis
      by (auto simp: validate'_rows blank_row_def)
  next
    case False
    then show ?thesis
      by (auto simp: validate'_def Let_def)
  qed
  then show "validate sheet = Inl (ValueError FromAssertion)"
    by (simp add: validate_def)
  then show "SebStatementParser sheet loc br = Inl (ValueError FromAssertion)"
    by (simp add: SebStatementParser_def)
qed

text \<open>
  Claim C10. On a worksheet whose first eight rows have six cells each and whose row 4
  has an absent first cell, validation raises \<open>TypeError\<close>: the match on the absent value
  fails before any assertion is reached, and \<open>validate\<close> converts assertion failures
  only, so the error is not the converted \<open>ValueError\<close>.
\<close>

theorem validate_absent_account_cell:
  assumes "8 \<le> length sheet" "list_all (\<lambda>row. length row = 6) (take 8 sheet)"
    "sheet ! 4 ! 0 = CNone"
  shows "validate sheet = Inl TypeError"
  using assms(3) by (simp add: validate_def validate'_rows [OF assms(1,2)])

theorem validate_absent_account_cell_witness:
  "8 \<le> length (preamble CNone) \<and> list_all (\<lambda>row. length row = 6) (take 8 (preamble CNone))
   \<and> preamble CNone ! 4 ! 0 = CNone \<and> validate (preamble CNone) = Inl TypeError"
proof -
  have h: "8 \<le> length (preamble CNone)" "list_all (\<lambda>row. length row = 6) (take 8 (preamble CNone))"
    "preamble CNone ! 4 ! 0 = CNone"
    by (simp_all add: preamble_def blank_row_def statement_header_def)
  from validate_absent_account_cell [OF h] h show ?thesis by simp
qed

text \<open>
  Claim C3, evaluated where the code departs from it. The worksheet \<open>number_sheet\<close> has
  eight rows of six cells, a row 5 that is not empty and a row 7 that is not the header
  row; the first cell of its row 4 is a number. Validation raises \<open>TypeError\<close>, not the
  converted \<open>ValueError\<close>, and the constructor passes that error on.
\<close>

theorem validate_number_sheet:
  "length number_sheet = 8 \<and> list_all (\<lambda>row. length row = 6) number_sheet
   \<and> number_sheet ! 5 \<noteq> blank_row \<and> number_sheet ! 7 \<noteq> statement_header
   \<and> validate number_sheet = Inl TypeError
   \<and> SebStatementParser number_sheet loc br = Inl TypeError"
  by (simp add: number_sheet_def blank_row_def statement_header_def validate_def validate'_def
      SebStatementParser_def numeral_eq_Suc)

section \<open>Properties of the statement header\<close>

text \<open>
  Claim C4. For every worksheet that \<open>validate\<close> accepts, the first cell of row 4 is a
  text of the form word, whitespace, parenthesised digits and whitespace (and possibly a
  final line feed), \<open>parse_statement\<close> returns a statement whose account id is the
  parenthesised text, the one group of the pattern, unchanged, and whose bank id and
  currency are the constants SEB and SEK.
\<close>

theorem parse_statement_account_id:
  assumes "validate sheet = Inr ()"
  shows "\<exists>s w sp g t. sheet ! 4 ! 0 = CStr s
      \<and> s = w @ sp # CHR ''('' # g @ CHR '')'' # t
      \<and> w \<noteq> [] \<and> list_all is_word w \<and> is_space sp
      \<and> g \<noteq> [] \<and> list_all (\<lambda>c. is_digit c \<or> is_space c) g
      \<and> (t = [] \<or> t = [CHR 0x0A])
      \<and> re_match account_re s = Some [g]
      \<and> parse_statement sheet = Inr \<lparr>account_id = g, bank_id = ''SEB'', currency = ''SEK''\<rparr>"
proof -
  note a = validate_accepts [OF assms]
  from a(3) obtain s gs where s: "sheet ! 4 ! 0 = CStr s" and gs: "re_match account_re s = Some gs"
    by auto
  from account_re_sound [OF gs] obtain w sp g t where
    sh: "s = w @ sp # CHR ''('' # g @ CHR '')'' # t" "gs = [g]" "w \<noteq> []" "list_all is_word w"
      "is_space sp" "g \<noteq> []" "list_all (\<lambda>c. is_digit c \<or> is_space c) g" "t = [] \<or> t = [CHR 0x0A]"
    by blast
  have six: "length (sheet ! 4) = 6"
    using a(1,2) by (simp add: list_all_length)
  have "parse_statement sheet = Inr \<lparr>account_id = g, bank_id = ''SEB'', currency = ''SEK''\<rparr>"
    using a(1) six s gs sh(2)
    by (auto simp: parse_statement_def Let_def index_def bank_id_const_def currency_id_def)
  with s gs sh show ?thesis by blast
qed

lemma validate_privatkonto: "validate privatkonto = Inr ()"
  by code_simp

theorem parse_statement_account_id_witness:
  "validate privatkonto = Inr ()
   \<and> parse_statement privatkonto = Inr \<lparr>account_id = ''1234 567 890'', bank_id = ''SEB'', currency = ''SEK''\<rparr>"
proof -
  from parse_statement_account_id [OF validate_privatkonto] obtain g where
    g: "re_match account_re ''Privatkonto (1234 567 890)'' = Some [g]"
      "parse_statement privatkonto = Inr \<lparr>account_id = g, bank_id = ''SEB'', currency = ''SEK''\<rparr>"
    by (auto simp: privatkonto_def preamble_def)
  have "re_match account_re ''Privatkonto (1234 567 890)'' = Some [''1234 567 890'']"
    by code_simp
  with g validate_privatkonto show ?thesis by simp
qed

section \<open>Properties of the plugin entry point\<close>

text \<open>
  Claim C1, evaluated where the code departs from it. With the setting \<open>locale\<close> given
  as the locale identifier \<open>en_US\<close>, \<open>get_parser\<close> sends it through \<open>parse_bool\<close> and raises
  the error of an unparsable boolean; given as \<open>true\<close>, the parser is built with the
  boolean \<open>True\<close> as its locale. Only without the setting is the locale the string
  \<open>sv_SE\<close>.
\<close>

theorem get_parser_locale_setting:
  "get_parser (Some [(''locale'', ''en_US'')]) fin = Inl (ValueError (CantParseBool ''en_US''))
   \<and> get_parser (Some [(''locale'', ''true'')]) fin = SebStatementParser fin (Some (PBool True)) False
   \<and> get_parser None fin = SebStatementParser fin (Some (PStr ''sv_SE'')) False"
  by (simp add: get_parser_def parse_bool_def)

section \<open>Properties of the record parser\<close>

text \<open>The errors of the date parser, and the two outcomes of the value date.\<close>

lemma strptime_with_error:
  "strptime_with dy s = Inl e \<Longrightarrow> e = ValueError TimeData"
  by (auto simp: strptime_with_def mk_datetime_def split: option.splits if_splits prod.splits)

lemma parse_datetime_error:
  "parse_datetime v = Inl e \<Longrightarrow> e = TypeError \<or> e = ValueError TimeData"
  by (auto simp: parse_datetime_def strptime_Ymd_def dest: strptime_with_error split: cell.splits)

lemma parse_record_bad_value_date:
  assumes "1 < length row" "parse_datetime (row ! 1) = Inl e"
  shows "parse_record brief row = (case parse_datetime (row ! 0) of Inl e0 \<Rightarrow> Inl e0 | Inr d \<Rightarrow> Inl e)"
  using assms by (auto simp: parse_record_def Let_def index_def split: sum.splits)

lemma parse_record_good_value_date:
  assumes "1 < length row" "parse_datetime (row ! 1) = Inr d" "parse_datetime v = Inr d'"
  shows "parse_record brief (row[1 := v]) = parse_record brief row"
  using assms by (simp add: parse_record_def Let_def index_def take_update_swap split: sum.splits)

text \<open>The example row: its length, its dates and its cells.\<close>

lemma card_row_facts:
  "5 \<le> length (card_row m)"
  "parse_datetime (card_row m ! 0) = Inr \<lparr>year = 2015, month = 1, day = 2\<rparr>"
  "parse_datetime (card_row m ! 1) = Inr \<lparr>year = 2015, month = 1, day = 3\<rparr>"
  "card_row m ! 3 = CStr m"
  "card_row m ! 2 = CStr ''5484381''"
  "card_row m ! 4 = CNum (-120)"
proof -
  have "parse_datetime (CStr ''2015-01-02'') = Inr \<lparr>year = 2015, month = 1, day = 2\<rparr>"
    by code_simp
  then show "parse_datetime (card_row m ! 0) = Inr \<lparr>year = 2015, month = 1, day = 2\<rparr>"
    by (simp add: card_row_def)
  have "parse_datetime (CStr ''2015-01-03'') = Inr \<lparr>year = 2015, month = 1, day = 3\<rparr>"
    by code_simp
  then show "parse_datetime (card_row m ! 1) = Inr \<lparr>year = 2015, month = 1, day = 3\<rparr>"
    by (simp add: card_row_def)
qed (simp_all add: card_row_def)

text \<open>
  Claim C5. On a row that has a positional value 1, \<open>parse_record\<close> runs the date
  parser on that value and drops the result. When the value does not parse, the record
  parse fails with an error of the date parser (that of value 0 when value 0 does not
  parse either, that of value 1 otherwise). When it parses, it has no effect: any other
  value that parses in its place gives the same outcome, field by field.
\<close>

theorem parse_record_value_date:
  assumes "1 < length row"
  shows "(\<forall>e. parse_datetime (row ! 1) = Inl e \<longrightarrow>
            (e = TypeError \<or> e = ValueError TimeData)
            \<and> parse_record brief row
                = (case parse_datetime (row ! 0) of Inl e0 \<Rightarrow> Inl e0 | Inr d \<Rightarrow> Inl e)
            \<and> (\<exists>e'. parse_record brief row = Inl e' \<and> (e' = TypeError \<or> e' = ValueError TimeData)))
       \<and> (\<forall>d v d'. parse_datetime (row ! 1) = Inr d \<and> parse_datetime v = Inr d' \<longrightarrow>
            parse_record brief (row[1 := v]) = parse_record brief row)"
proof (intro conjI allI impI)
  fix e assume e: "parse_datetime (row ! 1) = Inl e"
  then show "e = TypeError \<or> e = ValueError TimeData"
    by (rule parse_datetime_error)
  show r: "parse_record brief row
      = (case parse_datetime (row ! 0) of Inl e0 \<Rightarrow> Inl e0 | Inr d \<Rightarrow> Inl e)"
    by (rule parse_record_bad_value_date [OF assms e])
  show "\<exists>e'. parse_record brief row = Inl e' \<and> (e' = TypeError \<or> e' = ValueError TimeData)"
    using r parse_datetime_error [OF e] parse_datetime_error [of "row ! 0"]
    by (cases "parse_datetime (row ! 0)") auto
next
  fix d v d' assume "parse_datetime (row ! 1) = Inr d \<and> parse_datetime v = Inr d'"
  then show "parse_record brief (row[1 := v]) = parse_record brief row"
    using parse_record_good_value_date [OF assms] by blast
qed

theorem parse_record_value_date_witness:
  "1 < length (card_row ''ICA SUPERMARKET'')
   \<and> parse_datetime (bad_value_date_row ! 1) = Inl (ValueError TimeData)
   \<and> parse_record False bad_value_date_row = Inl (ValueError TimeData)
   \<and> parse_datetime (card_row ''ICA SUPERMARKET'' ! 1) = Inr \<lparr>year = 2015, month = 1, day = 3\<rparr>
   \<and> parse_datetime (CStr ''1999-12-31'') = Inr \<lparr>year = 1999, month = 12, day = 31\<rparr>
   \<and> parse_record False ((card_row ''ICA SUPERMARKET'')[1 := CStr ''1999-12-31''])
       = parse_record False (card_row ''ICA SUPERMARKET'')"
proof -
  have len: "1 < length (card_row ''ICA SUPERMARKET'')" "1 < length bad_value_date_row"
    by (simp_all add: card_row_def bad_value_date_row_def)
  have bad: "parse_datetime (bad_value_date_row ! 1) = Inl (ValueError TimeData)"
    unfolding bad_value_date_row_def card_row_def by code_simp
  have d0: "parse_datetime (bad_value_date_row ! 0) = Inr \<lparr>year = 2015, month = 1, day = 2\<rparr>"
    unfolding bad_value_date_row_def card_row_def by code_simp
  have good: "parse_datetime (card_row ''ICA SUPERMARKET'' ! 1) = Inr \<lparr>year = 2015, month = 1, day = 3\<rparr>"
    unfolding card_row_def by code_simp
  have other: "parse_datetime (CStr ''1999-12-31'') = Inr \<lparr>year = 1999, month = 12, day = 31\<rparr>"
    by code_simp
  from parse_record_value_date [OF len(2), of False] bad d0
  have "parse_record False bad_value_date_row = Inl (ValueError TimeData)"
    by simp
  moreover from parse_record_value_date [OF len(1), of False] good other
  have "parse_record False ((card_row ''ICA SUPERMARKET'')[1 := CStr ''1999-12-31''])
       = parse_record False (card_row ''ICA SUPERMARKET'')"
    by blast
  ultimately show ?thesis using len bad good other by simp
qed

text \<open>\<open>parse_record\<close> on a row whose two dates parse and whose memo is a text.\<close>

lemma parse_record_memo:
  assumes "5 \<le> length row" "parse_datetime (row ! 0) = Inr d" "parse_datetime (row ! 1) = Inr v"
    "row ! 3 = CStr m"
  shows "parse_record brief row =
     (case re_match memo_re m of
        None \<Rightarrow> Inr \<lparr>line_id = (d, m, row ! 4), date = d, date_user = None,
                     refnum = row ! 2, memo = m, amount = row ! 4\<rparr>
      | Some [card_memo, card_date] \<Rightarrow>
          (case strptime_ymd card_date of
             Inl e \<Rightarrow> Inl e
           | Inr du \<Rightarrow>
               Inr \<lparr>line_id = (d, if brief then card_memo else m, row ! 4), date = d,
                    date_user = Some du, refnum = row ! 2,
                    memo = (if brief then card_memo else m), amount = row ! 4\<rparr>)
      | Some _ \<Rightarrow> Inl (ValueError Unpack))"
  using assms by (auto simp: parse_record_def Let_def index_def split: option.splits list.splits)

text \<open>
  Claim C2, as amended. Take a row of at least five values whose two dates parse and
  whose memo is a text. When the memo matches the card pattern, the match has two
  groups, the second of the shape \<open>YY-MM-DD\<close>; when that text is a calendar date,
  \<open>parse_record\<close> sets \<open>date_user\<close> to it in both modes and replaces the memo by the
  first group exactly in brief mode; when it is no calendar date, \<open>parse_record\<close> fails
  with the error of \<open>strptime\<close>. When the memo does not match, \<open>date_user\<close> is not set
  and the memo is unchanged, in both modes.
\<close>

theorem parse_record_card_memo:
  assumes "5 \<le> length row" "parse_datetime (row ! 0) = Inr d" "parse_datetime (row ! 1) = Inr v"
    "row ! 3 = CStr m"
  shows "(\<forall>gs. re_match memo_re m = Some gs \<longrightarrow>
            (\<exists>card_memo card_date. gs = [card_memo, card_date] \<and> date_shape card_date
               \<and> (\<forall>e. strptime_ymd card_date = Inl e \<longrightarrow> parse_record brief row = Inl e)
               \<and> (\<forall>du. strptime_ymd card_date = Inr du \<longrightarrow>
                     parse_record brief row =
                       Inr \<lparr>line_id = (d, if brief then card_memo else m, row ! 4), date = d,
                            date_user = Some du, refnum = row ! 2,
                            memo = (if brief then card_memo else m), amount = row ! 4\<rparr>)))
       \<and> (re_match memo_re m = None \<longrightarrow>
            parse_record brief row =
              Inr \<lparr>line_id = (d, m, row ! 4), date = d, date_user = None,
                   refnum = row ! 2, memo = m, amount = row ! 4\<rparr>)"
proof (intro conjI allI impI)
  fix gs assume gs: "re_match memo_re m = Some gs"
  from memo_re_sound [OF gs] obtain pre dt where "gs = [pre, dt]" "date_shape dt"
    by blast
  with gs show "\<exists>card_memo card_date. gs = [card_memo, card_date] \<and> date_shape card_date
               \<and> (\<forall>e. strptime_ymd card_date = Inl e \<longrightarrow> parse_record brief row = Inl e)
               \<and> (\<forall>du. strptime_ymd card_date = Inr du \<longrightarrow>
                     parse_record brief row =
                       Inr \<lparr>line_id = (d, if brief then card_memo else m, row ! 4), date = d,
                            date_user = Some du, refnum = row ! 2,
                            memo = (if brief then card_memo else m), amount = row ! 4\<rparr>)"
    by (simp add: parse_record_memo [OF assms])
next
  assume "re_match memo_re m = None"
  then show "parse_record brief row =
              Inr \<lparr>line_id = (d, m, row ! 4), date = d, date_user = None,
                   refnum = row ! 2, memo = m, amount = row ! 4\<rparr>"
    by (simp add: parse_record_memo [OF assms])
qed

theorem parse_record_card_memo_witness:
  "parse_record True (card_row (wirstroms @ ''/14-12-31'')) =
     Inr \<lparr>line_id = (\<lparr>year = 2015, month = 1, day = 2\<rparr>, wirstroms, CNum (-120)),
          date = \<lparr>year = 2015, month = 1, day = 2\<rparr>,
          date_user = Some \<lparr>year = 2014, month = 12, day = 31\<rparr>,
          refnum = CStr ''5484381'', memo = wirstroms, amount = CNum (-120)\<rparr>
   \<and> parse_record False (card_row (wirstroms @ ''/14-12-31'')) =
     Inr \<lparr>line_id = (\<lparr>year = 2015, month = 1, day = 2\<rparr>, wirstroms @ ''/14-12-31'', CNum (-120)),
          date = \<lparr>year = 2015, month = 1, day = 2\<rparr>,
          date_user = Some \<lparr>year = 2014, month = 12, day = 31\<rparr>,
          refnum = CStr ''5484381'', memo = wirstroms @ ''/14-12-31'', amount = CNum (-120)\<rparr>
   \<and> parse_record True (card_row ''ICA SUPERMARKET'') =
     Inr \<lparr>line_id = (\<lparr>year = 2015, month = 1, day = 2\<rparr>, ''ICA SUPERMARKET'', CNum (-120)),
          date = \<lparr>year = 2015, month = 1, day = 2\<rparr>, date_user = None,
          refnum = CStr ''5484381'', memo = ''ICA SUPERMARKET'', amount = CNum (-120)\<rparr>
   \<and> parse_record False (card_row ''ICA SUPERMARKET'') =
     Inr \<lparr>line_id = (\<lparr>year = 2015, month = 1, day = 2\<rparr>, ''ICA SUPERMARKET'', CNum (-120)),
          date = \<lparr>year = 2015, month = 1, day = 2\<rparr>, date_user = None,
          refnum = CStr ''5484381'', memo = ''ICA SUPERMARKET'', amount = CNum (-120)\<rparr>"
proof -
  have m: "re_match memo_re (wirstroms @ ''/14-12-31'') = Some [wirstroms, ''14-12-31'']"
    unfolding wirstroms_def by code_simp
  have d: "strptime_ymd ''14-12-31'' = Inr \<lparr>year = 2014, month = 12, day = 31\<rparr>"
    by code_simp
  have n: "re_match memo_re ''ICA SUPERMARKET'' = None"
    by code_simp
  note w = parse_record_card_memo [OF card_row_facts(1-4), of "wirstroms @ ''/14-12-31''"]
  note i = parse_record_card_memo [OF card_row_facts(1-4), of "''ICA SUPERMARKET''"]
  from w [of True] w [of False] i [of True] i [of False] m d n show ?thesis
    by (simp add: card_row_facts)
qed

text \<open>
  The claim C2 as stated fails on a memo that matches the pattern with a suffix that is
  no date: the memo \<open>REF/12-34-56\<close> matches, and the record parse fails in both modes
  instead of setting \<open>date_user\<close>.
\<close>

theorem parse_record_card_memo_no_date:
  "re_match memo_re ''REF/12-34-56'' = Some [''REF'', ''12-34-56'']
   \<and> parse_record True (card_row ''REF/12-34-56'') = Inl (ValueError TimeData)
   \<and> parse_record False (card_row ''REF/12-34-56'') = Inl (ValueError TimeData)"
proof -
  have m: "re_match memo_re ''REF/12-34-56'' = Some [''REF'', ''12-34-56'']"
    by code_simp
  have d: "strptime_ymd ''12-34-56'' = Inl (ValueError TimeData)"
    by code_simp
  from m d show ?thesis
    by (simp add: parse_record_memo [OF card_row_facts(1-4)])
qed

text \<open>
  Claim C9, as amended. For every memo that is a text without line feed followed by a
  slash and a text of the shape \<open>YY-MM-DD\<close>, the greedy first group is all of the text
  before that last slash, whatever it contains, earlier slash-dates included. On a row
  with such a memo (at least five values, both dates parsing), \<open>date_user\<close> is read from
  the final date when it is a calendar date, and in brief mode the memo becomes the
  whole text before the last slash.
\<close>

theorem card_memo_last_suffix:
  assumes "date_shape dt" "list_all (\<lambda>c. c \<noteq> CHR 0x0A) pre"
    "5 \<le> length row" "parse_datetime (row ! 0) = Inr d" "parse_datetime (row ! 1) = Inr v"
    "row ! 3 = CStr (pre @ CHR ''/'' # dt)"
  shows "re_match memo_re (pre @ CHR ''/'' # dt) = Some [pre, dt]
     \<and> parse_record brief row =
         (case strptime_ymd dt of
            Inl e \<Rightarrow> Inl e
          | Inr du \<Rightarrow>
              Inr \<lparr>line_id = (d, if brief then pre else pre @ CHR ''/'' # dt, row ! 4), date = d,
                   date_user = Some du, refnum = row ! 2,
                   memo = (if brief then pre else pre @ CHR ''/'' # dt), amount = row ! 4\<rparr>)"
proof -
  have m: "re_match memo_re (pre @ CHR ''/'' # dt) = Some [pre, dt]"
    using memo_re_complete [OF assms(1) _ assms(2), of "[]"] by simp
  then show ?thesis
    by (simp add: parse_record_memo [OF assms(3-6)])
qed

theorem card_memo_last_suffix_witness:
  "date_shape ''14-12-31'' \<and> list_all (\<lambda>c. c \<noteq> CHR 0x0A) ''A/14-01-01''
   \<and> re_match memo_re ''A/14-01-01/14-12-31'' = Some [''A/14-01-01'', ''14-12-31'']
   \<and> parse_record True (card_row ''A/14-01-01/14-12-31'') =
        Inr \<lparr>line_id = (\<lparr>year = 2015, month = 1, day = 2\<rparr>, ''A/14-01-01'', CNum (-120)),
             date = \<lparr>year = 2015, month = 1, day = 2\<rparr>,
             date_user = Some \<lparr>year = 2014, month = 12, day = 31\<rparr>,
             refnum = CStr ''5484381'', memo = ''A/14-01-01'', amount = CNum (-120)\<rparr>"
proof -
  have s: "date_shape ''14-12-31''"
    by code_simp
  have p: "list_all (\<lambda>c. c \<noteq> CHR 0x0A) ''A/14-01-01''"
    by simp
  have d: "strptime_ymd ''14-12-31'' = Inr \<lparr>year = 2014, month = 12, day = 31\<rparr>"
    by code_simp
  have r: "card_row ''A/14-01-01/14-12-31'' ! 3 = CStr (''A/14-01-01'' @ CHR ''/'' # ''14-12-31'')"
    by (simp add: card_row_def)
  from card_memo_last_suffix [OF s p card_row_facts(1-3) r, of True] s p d show ?thesis
    by (simp add: card_row_facts)
qed

text \<open>
  The claim C9 as stated fails on a memo with a line feed before its final slash-date:
  \<open>two_lines\<close> holds two slash-dates and ends in one, but \<open>.\<close> does not match the line
  feed, so the pattern does not match, \<open>date_user\<close> is not set and the memo stays whole
  in brief mode.
\<close>

theorem card_memo_line_feed:
  "re_match memo_re two_lines = None
   \<and> parse_record True (card_row two_lines) =
        Inr \<lparr>line_id = (\<lparr>year = 2015, month = 1, day = 2\<rparr>, two_lines, CNum (-120)),
             date = \<lparr>year = 2015, month = 1, day = 2\<rparr>, date_user = None,
             refnum = CStr ''5484381'', memo = two_lines, amount = CNum (-120)\<rparr>"
proof -
  have m: "re_match memo_re two_lines = None"
    unfolding two_lines_def by code_simp
  then show ?thesis
    by (simp add: parse_record_memo [OF card_row_facts(1-4)] card_row_facts)
qed

section \<open>Properties of the record stream\<close>







section \<open>Properties of the locale-scoped numeric parser\<close>



end
